theory Spec2Isabelle
  imports Main "HOL-Library.Sublist"
begin

section \<open>The environment of the package: Go values, errors, reflection, HTTP\<close>

text \<open>
  The package \<open>crud\<close> is generic dispatch code over collaborators it does not implement:
  the storage collaborator (\<open>store.IStore\<close>), the operation objects (\<open>IOper\<close>), the
  error package and the standard library (\<open>reflect\<close>, \<open>encoding/json\<close>, \<open>net/http\<close>,
  \<open>strings\<close>, \<open>time\<close>). Values of user types are an arbitrary type \<open>'v\<close>, the state
  of the storage collaborator is an arbitrary type \<open>'st\<close>.
\<close>

subsection \<open>Errors\<close>

text \<open>
  \<open>ExtError\<close> is an error made by a collaborator (a \<open>Validate\<close> method, the store, the
  JSON decoder); \<open>Errorf\<close> and \<open>Wrapf\<close> are the two constructors of the error package the
  source calls, with the format already applied to its arguments; \<open>RuntimeError\<close> is a
  panic of the Go runtime.
\<close>

datatype gerror = ExtError string | Errorf string | Wrapf gerror string | RuntimeError string

subsection \<open>Interface values and method sets\<close>

text \<open>What \<open>reflect.Value.Interface()\<close> can hold: nil, an error, or another value.\<close>

datatype 'v iface = INil | IErr gerror | IVal 'v

text \<open>
  The method \<open>Validate() error\<close> of a user type \<open>T\<close>. Declared with a value receiver it
  is in the method set of \<open>T\<close> and of \<open>*T\<close> and cannot change the value; declared with
  a pointer receiver it is in the method set of \<open>*T\<close> only and may change the value it
  points to.
\<close>

datatype 'v validate_cap =
    NoValidate
  | ValueReceiver "'v \<Rightarrow> gerror option"
  | PointerReceiver "'v \<Rightarrow> gerror option \<times> 'v"

text \<open>
  A \<open>reflect.Type\<close> of a user type: its name, what \<open>json.Decoder.Decode\<close> does with a
  body for a new zero value of the type (\<open>Inl\<close> the decode error, \<open>Inr\<close> the decoded
  value), and its \<open>Validate\<close> method.
\<close>

record 'v rtype =
  TName :: string
  jsonDecode :: "string \<Rightarrow> gerror + 'v"
  Validate :: "'v validate_cap"

datatype handle = PtrHandle | ValHandle

text \<open>The type assertion \<open>x.(IWithValidate)\<close> on the pointer and on the value.\<close>

fun IWithValidate :: "handle \<Rightarrow> 'v rtype \<Rightarrow> ('v \<Rightarrow> gerror option \<times> 'v) option" where
  "IWithValidate PtrHandle t =
     (case Validate t of
        NoValidate \<Rightarrow> None
      | ValueReceiver g \<Rightarrow> Some (\<lambda>v. (g v, v))
      | PointerReceiver f \<Rightarrow> Some f)"
| "IWithValidate ValHandle t =
     (case Validate t of
        NoValidate \<Rightarrow> None
      | ValueReceiver g \<Rightarrow> Some (\<lambda>v. (g v, v))
      | PointerReceiver f \<Rightarrow> None)"

subsection \<open>Reflection on the Process method\<close>

text \<open>
  \<open>reflect.Method.Type\<close> of a method found through the type: the receiver is input 0.
\<close>

record 'v func_type =
  NumIn :: nat
  In :: "nat \<Rightarrow> 'v rtype"
  NumOut :: nat

text \<open>
  A method: its type and what a call computes. \<open>Invoke m x i\<close> is result \<open>i\<close> of the call
  on \<open>x\<close>; \<open>reflect.Value.Call\<close> returns as many results as the type declares.
\<close>

record 'v rmethod =
  MType :: "'v func_type"
  Invoke :: "'v \<Rightarrow> nat \<Rightarrow> 'v iface"

definition Call :: "'v rmethod \<Rightarrow> 'v \<Rightarrow> 'v iface list" where
  "Call m x = map (Invoke m x) [0..<NumOut (MType m)]"

text \<open>
  An operation object (a non-nil \<open>IOper\<close>): what \<open>%T\<close> prints for it and the result
  of \<open>MethodByName("Process")\<close> on its type. \<open>IOper\<close> is declared outside the files at
  hand; \<open>WithOper\<close> itself looks the method up by name and checks it, so the interface
  promises nothing about \<open>Process\<close>.
\<close>

record 'v ioper =
  GoType :: string
  Process :: "'v rmethod option"

subsection \<open>Decimal printing and the time layout\<close>

definition digit_char :: "nat \<Rightarrow> char" where
  "digit_char d = ''0123456789'' ! (d mod 10)"

fun utoa :: "nat \<Rightarrow> string" where
  "utoa n = (if n < 10 then [digit_char n] else utoa (n div 10) @ [digit_char (n mod 10)])"

declare utoa.simps [simp del]

text \<open>\<open>fmt.Sprintf("%d", x)\<close>.\<close>

definition itoa :: "int \<Rightarrow> string" where
  "itoa x = (if x < 0 then ''-'' else '''') @ utoa (nat \<bar>x\<bar>)"

text \<open>\<open>appendInt\<close> of package time: sign, zero padding to the width, digits.\<close>

definition appendInt :: "int \<Rightarrow> nat \<Rightarrow> string" where
  "appendInt x width =
     (if x < 0 then ''-'' else '''') @
     replicate (width - length (utoa (nat \<bar>x\<bar>))) (CHR ''0'') @ utoa (nat \<bar>x\<bar>)"

text \<open>
  A \<open>time.Time\<close> as \<open>Format\<close> sees it: the civil date and clock in the time's location
  and the location's offset in seconds east of UTC.
\<close>

record gotime =
  year :: int
  month :: nat
  day :: nat
  hour :: nat
  minute :: nat
  second :: nat
  offset :: int

datatype chunk =
    Lit char
  | StdLongYear
  | StdZeroMonth
  | StdZeroDay
  | StdHour
  | StdZeroMinute
  | StdZeroSecond
  | StdNumTZ

text \<open>
  The layout elements of \<open>time.Format\<close> that occur in the package's layout; any other
  character is copied.
\<close>

function chunks :: "string \<Rightarrow> chunk list" where
  "chunks s =
     (if s = [] then []
      else if prefix ''2006'' s then StdLongYear # chunks (drop 4 s)
      else if prefix ''-0700'' s then StdNumTZ # chunks (drop 5 s)
      else if prefix ''01'' s then StdZeroMonth # chunks (drop 2 s)
      else if prefix ''02'' s then StdZeroDay # chunks (drop 2 s)
      else if prefix ''15'' s then StdHour # chunks (drop 2 s)
      else if prefix ''04'' s then StdZeroMinute # chunks (drop 2 s)
      else if prefix ''05'' s then StdZeroSecond # chunks (drop 2 s)
      else Lit (hd s) # chunks (tl s))"
  by pat_completeness auto
termination
  by (relation "measure length") (auto simp: neq_Nil_conv)

declare chunks.simps [simp del]

text \<open>Go's integer division truncates towards zero.\<close>

definition quot :: "int \<Rightarrow> int \<Rightarrow> int" where
  "quot a b = sgn a * sgn b * (\<bar>a\<bar> div \<bar>b\<bar>)"

fun format_chunk :: "gotime \<Rightarrow> chunk \<Rightarrow> string" where
  "format_chunk t (Lit c) = [c]"
| "format_chunk t StdLongYear = appendInt (year t) 4"
| "format_chunk t StdZeroMonth = appendInt (int (month t)) 2"
| "format_chunk t StdZeroDay = appendInt (int (day t)) 2"
| "format_chunk t StdHour = appendInt (int (hour t)) 2"
| "format_chunk t StdZeroMinute = appendInt (int (minute t)) 2"
| "format_chunk t StdZeroSecond = appendInt (int (second t)) 2"
| "format_chunk t StdNumTZ =
     (let zone = quot (offset t) 60 in
      (if zone < 0 then ''-'' else ''+'') @
      appendInt (\<bar>zone\<bar> div 60) 2 @ appendInt (\<bar>zone\<bar> mod 60) 2)"

definition Format :: "gotime \<Rightarrow> string \<Rightarrow> string" where
  "Format t layout = concat (map (format_chunk t) (chunks layout))"

definition timestampFormat :: string where
  "timestampFormat = ''2006-01-02 15:04:05-0700''"

subsection \<open>The envelope\<close>

text \<open>
  \<open>store.ItemInfo\<close>, the envelope returned by \<open>Add\<close> and \<open>Get\<close>: the four fields the
  handlers read.
\<close>

record item_info =
  ID :: string
  UserID :: string
  Timestamp :: gotime
  Rev :: int

subsection \<open>The collaborators' and libraries' functions\<close>

record 'v env =
  ValidateUserType :: "'v rtype \<Rightarrow> gerror option"
  ErrorText :: "gerror \<Rightarrow> string"
  FormatV :: "gerror \<Rightarrow> string"
  ShowV :: "'v iface \<Rightarrow> string"
  Marshal :: "'v iface \<Rightarrow> gerror + string"
  MarshalInfo :: "item_info \<Rightarrow> gerror + string"

text \<open>
  \<open>ValidateUserType\<close> is the function of package store. \<open>ErrorText\<close> is
  \<open>err.Error()\<close>, \<open>FormatV\<close> and \<open>ShowV\<close> are what \<open>%v\<close> prints. \<open>Marshal\<close> and
  \<open>MarshalInfo\<close> are \<open>json.Marshal\<close> on a value and on the envelope: the error
  (\<open>Inl\<close>) or the JSON text (\<open>Inr\<close>).

  The handlers keep the first result of \<open>json.Marshal\<close> and drop the second
  (\<open>jsonValue, _ := json.Marshal(...)\<close>): when the encoding fails the bytes are nil and
  the handler goes on with them.
\<close>

definition dropErr :: "gerror + string \<Rightarrow> string" where
  "dropErr r = (case r of Inl _ \<Rightarrow> [] | Inr jsonValue \<Rightarrow> jsonValue)"

subsection \<open>strings.SplitN\<close>

text \<open>The text before and after the first occurrence of a separator.\<close>

fun cut :: "string \<Rightarrow> string \<Rightarrow> (string \<times> string) option" where
  "cut sep [] = (if sep = [] then Some ([], []) else None)"
| "cut sep (c # cs) =
     (if prefix sep (c # cs) then Some ([], drop (length sep) (c # cs))
      else map_option (\<lambda>(a, b). (c # a, b)) (cut sep cs))"

text \<open>
  \<open>strings.SplitN(s, sep, n)\<close> for a non-empty separator and \<open>n \<ge> 0\<close>: at most \<open>n\<close>
  pieces, the last one the unsplit rest.
\<close>

fun SplitN :: "string \<Rightarrow> string \<Rightarrow> nat \<Rightarrow> string list" where
  "SplitN s sep 0 = []"
| "SplitN s sep (Suc 0) = [s]"
| "SplitN s sep (Suc (Suc k)) =
     (case cut sep s of
        None \<Rightarrow> [s]
      | Some (a, b) \<Rightarrow> a # SplitN b sep (Suc k))"

subsection \<open>net/http\<close>

record request =
  Method :: string
  Path :: string
  Body :: string

record response =
  header :: "string \<rightharpoonup> string"
  status :: "nat option"
  body :: string

definition NewResponse :: response where
  "NewResponse = \<lparr>header = Map.empty, status = None, body = []\<rparr>"

definition Header_Set :: "string \<Rightarrow> string \<Rightarrow> response \<Rightarrow> response" where
  "Header_Set k v res = res\<lparr>header := (header res)(k \<mapsto> v)\<rparr>"

definition WriteHeader :: "nat \<Rightarrow> response \<Rightarrow> response" where
  "WriteHeader code res = (if status res = None then res\<lparr>status := Some code\<rparr> else res)"

text \<open>A write without a status line written before it sends 200 first.\<close>

definition Write :: "string \<Rightarrow> response \<Rightarrow> response" where
  "Write b res = (let res' = WriteHeader 200 res in res'\<lparr>body := body res' @ b\<rparr>)"

text \<open>\<open>http.Error\<close>: plain text, the status, the message and a newline.\<close>

definition http_Error :: "response \<Rightarrow> string \<Rightarrow> nat \<Rightarrow> response" where
  "http_Error res msg code =
     Write (msg @ [CHR 0x0A])
       (WriteHeader code
         (Header_Set ''X-Content-Type-Options'' ''nosniff''
           (Header_Set ''Content-Type'' ''text/plain; charset=utf-8''
             (res\<lparr>header := (header res)(''Content-Length'' := None)\<rparr>))))"

abbreviation MethodPost :: string where "MethodPost \<equiv> ''POST''"
abbreviation MethodGet :: string where "MethodGet \<equiv> ''GET''"
abbreviation StatusBadRequest :: nat where "StatusBadRequest \<equiv> 400"
abbreviation StatusNotFound :: nat where "StatusNotFound \<equiv> 404"
abbreviation StatusMethodNotAllowed :: nat where "StatusMethodNotAllowed \<equiv> 405"
abbreviation StatusInternalServerError :: nat where "StatusInternalServerError \<equiv> 500"

section \<open>The package\<close>

subsection \<open>The storage collaborator and the calls the handlers make\<close>

text \<open>
  \<open>store.IStore\<close>: \<open>Add\<close> and \<open>Get\<close> read and change the collaborator's state and return
  either the error (\<open>Inl\<close>) or the result.
\<close>

record ('v, 'st) istore =
  Name :: string
  Type :: "'v rtype"
  Add :: "'v \<Rightarrow> 'st \<Rightarrow> (gerror + item_info) \<times> 'st"
  Get :: "string \<Rightarrow> 'st \<Rightarrow> (gerror + 'v iface \<times> item_info) \<times> 'st"

text \<open>
  A handler runs in a world: the state of the storage collaborator and the log of the
  calls made to the collaborators so far.
\<close>

datatype 'v call = CValidate handle 'v | CAdd 'v | CGet string | CProcess 'v

record ('v, 'st) world =
  st :: 'st
  calls :: "'v call list"

definition call_Add ::
  "('v, 'st) istore \<Rightarrow> 'v \<Rightarrow> ('v, 'st) world \<Rightarrow> (gerror + item_info) \<times> ('v, 'st) world" where
  "call_Add s item w =
     (case Add s item (st w) of
        (r, st') \<Rightarrow> (r, w\<lparr>st := st', calls := calls w @ [CAdd item]\<rparr>))"

definition call_Get ::
  "('v, 'st) istore \<Rightarrow> string \<Rightarrow> ('v, 'st) world \<Rightarrow>
     (gerror + 'v iface \<times> item_info) \<times> ('v, 'st) world" where
  "call_Get s id' w =
     (case Get s id' (st w) of
        (r, st') \<Rightarrow> (r, w\<lparr>st := st', calls := calls w @ [CGet id']\<rparr>))"

text \<open>
  \<open>if validator, ok := x.(IWithValidate); ok { if err := validator.Validate(); ... }\<close>
  on one handle of the decoded value: the error of the call if there is one, the value
  after the call, the world after the call.
\<close>

definition validate_via ::
  "handle \<Rightarrow> 'v rtype \<Rightarrow> 'v \<Rightarrow> ('v, 'st) world \<Rightarrow> gerror option \<times> 'v \<times> ('v, 'st) world" where
  "validate_via h t v w =
     (case IWithValidate h t of
        None \<Rightarrow> (None, v, w)
      | Some validate \<Rightarrow>
          (case validate v of
             (err, v') \<Rightarrow> (err, v', w\<lparr>calls := calls w @ [CValidate h v]\<rparr>)))"

definition call_Process ::
  "'v rmethod \<Rightarrow> 'v \<Rightarrow> ('v, 'st) world \<Rightarrow> 'v iface list \<times> ('v, 'st) world" where
  "call_Process m x w = (Call m x, w\<lparr>calls := calls w @ [CProcess x]\<rparr>)"

subsection \<open>Server: the registry\<close>

record 'v operInfo =
  oper :: "'v ioper"
  processMethod :: "'v rmethod"
  requestType :: "'v rtype"

text \<open>
  The fields of \<open>Server\<close>. \<open>opers\<close> is a Go map: \<open>None\<close> is the nil map of a \<open>Server\<close>
  that \<open>New\<close> did not make, \<open>Some m\<close> a map with the entries \<open>m\<close>.
\<close>

record ('v, 'st) Server =
  stores :: "('v, 'st) istore list"
  opers :: "(string \<rightharpoonup> 'v operInfo) option"

definition New :: "('v, 'st) Server" where
  "New = \<lparr>stores = [], opers = Some Map.empty\<rparr>"

definition With :: "('v, 'st) Server \<Rightarrow> ('v, 'st) istore \<Rightarrow> ('v, 'st) Server" where
  "With server s = server\<lparr>stores := stores server @ [s]\<rparr>"

text \<open>
  \<open>WithOper\<close> panics (\<open>Inl\<close> the value of the panic) or returns the server with the
  binding stored under the path. The store into a nil map is a panic of the runtime.
\<close>

definition WithOper ::
  "'v env \<Rightarrow> ('v, 'st) Server \<Rightarrow> string \<Rightarrow> 'v ioper \<Rightarrow> gerror + ('v, 'st) Server" where
  "WithOper env server path oper' =
     (case Process oper' of
        None \<Rightarrow>
          Inl (Errorf (GoType oper' @ '' does not have Process(request)->(response,error) method''))
      | Some operProcessMethod \<Rightarrow>
          if NumIn (MType operProcessMethod) \<noteq> 2 then
            Inl (Errorf (GoType oper' @
              ''.Process() does not have prototype Process(request)->(response,error)''))
          else
            let operRequestType = In (MType operProcessMethod) 1 in
            (case ValidateUserType env operRequestType of
               Some err \<Rightarrow>
                 Inl (Wrapf err (''invalid oper request '' @ TName operRequestType @
                   '' used as arg '' @ GoType oper' @ ''.Process(<request>)''))
             | None \<Rightarrow>
                 (case opers server of
                    None \<Rightarrow> Inl (RuntimeError ''assignment to entry in nil map'')
                  | Some m \<Rightarrow>
                      Inr (server\<lparr>opers := Some (m(path \<mapsto>
                        \<lparr>oper = oper', processMethod = operProcessMethod,
                         requestType = operRequestType\<rparr>))\<rparr>))))"

subsection \<open>Server: the store handlers\<close>

type_synonym ('v, 'st) handlerFunc =
  "response \<Rightarrow> request \<Rightarrow> ('v, 'st) world \<Rightarrow> (gerror + response) \<times> ('v, 'st) world"

definition crudMessage :: string where
  "crudMessage = ''CRUD: Create with POST, Read with GET, Update with PUT, Delete with DELETE.''"

definition storeHandler ::
  "(('v, 'st) istore \<Rightarrow> ('v, 'st) handlerFunc) \<Rightarrow> (('v, 'st) istore \<Rightarrow> ('v, 'st) handlerFunc) \<Rightarrow>
     ('v, 'st) istore \<Rightarrow> ('v, 'st) handlerFunc" where
  "storeHandler postFunc getFunc s res req w =
     (if Method req = MethodPost then postFunc s res req w
      else if Method req = MethodGet then getFunc s res req w
      else (Inr (http_Error res crudMessage StatusMethodNotAllowed), w))"

text \<open>The success branch of the create flow: the four headers, the content type, the body.\<close>

definition write_info :: "'v env \<Rightarrow> item_info \<Rightarrow> response \<Rightarrow> response" where
  "write_info env info res =
     (let jsonValue = dropErr (MarshalInfo env info) in
      Write jsonValue
        (Header_Set ''Content-Type'' ''application/json''
          (Header_Set ''Item-Revision'' (itoa (Rev info))
            (Header_Set ''Item-Timestamp'' (Format (Timestamp info) timestampFormat)
              (Header_Set ''Item-User-ID'' (UserID info)
                (Header_Set ''Item-ID'' (ID info) res))))))"

definition storePost :: "'v env \<Rightarrow> ('v, 'st) istore \<Rightarrow> ('v, 'st) handlerFunc" where
  "storePost env s res req w =
     (if Path req \<noteq> ''/'' @ Name s then
        (Inr (http_Error res (''Expecting POST /'' @ Name s) StatusBadRequest), w)
      else
        case jsonDecode (Type s) (Body req) of
          Inl err \<Rightarrow>
            (Inr (http_Error res (''Cannot parse body as JSON '' @ Name s) StatusBadRequest), w)
        | Inr item \<Rightarrow>
            (case validate_via PtrHandle (Type s) item w of
               (Some err, itemData, w1) \<Rightarrow>
                 (Inr (http_Error res (ErrorText env (Wrapf err (''invalid '' @ Name s)))
                    StatusBadRequest), w1)
             | (None, itemData, w1) \<Rightarrow>
                 (case validate_via ValHandle (Type s) itemData w1 of
                    (Some err, _, w2) \<Rightarrow>
                      (Inr (http_Error res (ErrorText env (Wrapf err (''invalid '' @ Name s)))
                         StatusBadRequest), w2)
                  | (None, _, w2) \<Rightarrow>
                      (case call_Add s itemData w2 of
                         (Inl err, w3) \<Rightarrow>
                           (Inr (http_Error res (ErrorText env (Wrapf err ''failed to add''))
                              StatusInternalServerError), w3)
                       | (Inr info, w3) \<Rightarrow> (Inr (write_info env info res), w3)))))"

definition expectingGet :: "('v, 'st) istore \<Rightarrow> string" where
  "expectingGet s = ''Expecting GET /'' @ Name s @ ''/<id>''"

definition storeGet :: "'v env \<Rightarrow> ('v, 'st) istore \<Rightarrow> ('v, 'st) handlerFunc" where
  "storeGet env s res req w =
     (let parts = SplitN (Path req) ''/'' 4 in
      if length parts \<noteq> 3 \<or> length (parts ! 2) = 0 then
        (Inr (http_Error res (expectingGet s) StatusNotFound), w)
      else
        let id' = parts ! 2 in
        case call_Get s id' w of
          (Inl err, w1) \<Rightarrow> (Inr (http_Error res (expectingGet s) StatusNotFound), w1)
        | (Inr (v, info), w1) \<Rightarrow>
            (Inr (Write (dropErr (Marshal env v))
               (Header_Set ''Content-Type'' ''application/json''
                 (Header_Set ''Item-Revision'' (itoa (Rev info))
                   (Header_Set ''Item-Timestamp'' (Format (Timestamp info) timestampFormat)
                     res)))), w1))"

subsection \<open>Server: the operation handlers\<close>

definition operHandler ::
  "('v operInfo \<Rightarrow> ('v, 'st) handlerFunc) \<Rightarrow> 'v operInfo \<Rightarrow> ('v, 'st) handlerFunc" where
  "operHandler postFunc o' res req w =
     (if Method req = MethodPost then postFunc o' res req w
      else (Inr (http_Error res (Path req @ '' accepts only POST'') StatusMethodNotAllowed), w))"

text \<open>
  The part of \<open>operPost\<close> after the call: the arity check, the failure output, the
  response. \<open>Inl\<close> is the panic on a failure output that is not an error.
\<close>

definition operRespond :: "'v env \<Rightarrow> 'v operInfo \<Rightarrow> response \<Rightarrow> 'v iface list \<Rightarrow> gerror + response" where
  "operRespond env o' res out =
     (if length out \<noteq> 2 then
        Inr (http_Error res
          (ErrorText env (Errorf (GoType (oper o') @ ''.Process() returned '' @
             itoa (int (length out)) @ '' instead of '' @ itoa 2 @ '' values'')))
          StatusInternalServerError)
      else
        let responseData = out ! 0 in
        case out ! 1 of
          INil \<Rightarrow>
            Inr (Write (dropErr (Marshal env responseData))
              (Header_Set ''Content-Type'' ''application/json'' res))
        | IErr err \<Rightarrow>
            Inr (http_Error res (ErrorText env (Errorf (''failed: '' @ FormatV env err)))
              StatusBadRequest)
        | IVal x \<Rightarrow>
            Inl (Errorf (''reflect.Value:'' @ ShowV env (IVal x) @ '' is not error'')))"

definition operPost :: "'v env \<Rightarrow> 'v operInfo \<Rightarrow> ('v, 'st) handlerFunc" where
  "operPost env o' res req w =
     (case jsonDecode (requestType o') (Body req) of
        Inl err \<Rightarrow>
          (Inr (http_Error res (''Cannot parse body as JSON '' @ TName (requestType o'))
             StatusBadRequest), w)
      | Inr request \<Rightarrow>
          (case validate_via PtrHandle (requestType o') request w of
             (Some err, requestData, w1) \<Rightarrow>
               (Inr (http_Error res
                  (ErrorText env (Wrapf err (''invalid '' @ TName (requestType o'))))
                  StatusBadRequest), w1)
           | (None, requestData, w1) \<Rightarrow>
               (case validate_via ValHandle (requestType o') requestData w1 of
                  (Some err, _, w2) \<Rightarrow>
                    (Inr (http_Error res
                       (ErrorText env (Wrapf err (''invalid '' @ TName (requestType o'))))
                       StatusBadRequest), w2)
                | (None, _, w2) \<Rightarrow>
                    (case call_Process (processMethod o') requestData w2 of
                       (out, w3) \<Rightarrow> (operRespond env o' res out, w3)))))"

subsection \<open>Crud: the second registry and its handlers\<close>

record ('v, 'st) Crud =
  crud_stores :: "('v, 'st) istore list"

definition Crud_New :: "('v, 'st) Crud" where
  "Crud_New = \<lparr>crud_stores = []\<rparr>"

definition Crud_With :: "('v, 'st) Crud \<Rightarrow> ('v, 'st) istore \<Rightarrow> ('v, 'st) Crud" where
  "Crud_With c s = c\<lparr>crud_stores := crud_stores c @ [s]\<rparr>"

definition Crud_handler ::
  "(('v, 'st) istore \<Rightarrow> ('v, 'st) handlerFunc) \<Rightarrow> (('v, 'st) istore \<Rightarrow> ('v, 'st) handlerFunc) \<Rightarrow>
     ('v, 'st) istore \<Rightarrow> ('v, 'st) handlerFunc" where
  "Crud_handler postFunc getFunc s res req w =
     (if Method req = MethodPost then postFunc s res req w
      else if Method req = MethodGet then getFunc s res req w
      else (Inr (http_Error res crudMessage StatusMethodNotAllowed), w))"

definition Crud_post :: "'v env \<Rightarrow> ('v, 'st) istore \<Rightarrow> ('v, 'st) handlerFunc" where
  "Crud_post env s res req w =
     (if Path req \<noteq> ''/'' @ Name s then
        (Inr (http_Error res (''Expecting POST /'' @ Name s) StatusBadRequest), w)
      else
        case jsonDecode (Type s) (Body req) of
          Inl err \<Rightarrow>
            (Inr (http_Error res (''Cannot parse body as JSON '' @ Name s) StatusBadRequest), w)
        | Inr itemData \<Rightarrow>
            (case validate_via ValHandle (Type s) itemData w of
               (Some err, _, w1) \<Rightarrow>
                 (Inr (http_Error res (ErrorText env (Wrapf err (''invalid '' @ Name s)))
                    StatusBadRequest), w1)
             | (None, _, w1) \<Rightarrow>
                 (case call_Add s itemData w1 of
                    (Inl err, w2) \<Rightarrow>
                      (Inr (http_Error res (ErrorText env (Wrapf err ''failed to add''))
                         StatusInternalServerError), w2)
                  | (Inr info, w2) \<Rightarrow> (Inr (write_info env info res), w2))))"

definition Crud_get :: "'v env \<Rightarrow> ('v, 'st) istore \<Rightarrow> ('v, 'st) handlerFunc" where
  "Crud_get env s res req w =
     (let parts = SplitN (Path req) ''/'' 4 in
      if length parts \<noteq> 3 \<or> length (parts ! 2) = 0 then
        (Inr (http_Error res (expectingGet s) StatusNotFound), w)
      else
        let id' = parts ! 2 in
        case call_Get s id' w of
          (Inl err, w1) \<Rightarrow> (Inr (http_Error res (expectingGet s) StatusNotFound), w1)
        | (Inr (v, info), w1) \<Rightarrow>
            (Inr (Write (dropErr (Marshal env v))
               (Header_Set ''Content-Type'' ''application/json''
                 (Header_Set ''Item-Revision'' (itoa (Rev info))
                   (Header_Set ''Item-Timestamp'' (Format (Timestamp info) timestampFormat)
                     res)))), w1))"

section \<open>Reading results, and the terms of the specification\<close>

definition status_of :: "gerror + response \<Rightarrow> nat option" where
  "status_of r = (case r of Inl _ \<Rightarrow> None | Inr res \<Rightarrow> status res)"

definition body_of :: "gerror + response \<Rightarrow> string" where
  "body_of r = (case r of Inl _ \<Rightarrow> [] | Inr res \<Rightarrow> body res)"

definition header_of :: "gerror + response \<Rightarrow> string \<Rightarrow> string option" where
  "header_of r k = (case r of Inl _ \<Rightarrow> None | Inr res \<Rightarrow> header res k)"

text \<open>
  What the validation capability of a type says about a value, whichever receiver it is
  declared with, and the value it leaves behind.
\<close>

definition validation_error :: "'v rtype \<Rightarrow> 'v \<Rightarrow> gerror option" where
  "validation_error t v =
     (case Validate t of
        NoValidate \<Rightarrow> None
      | ValueReceiver g \<Rightarrow> g v
      | PointerReceiver f \<Rightarrow> fst (f v))"

definition validated :: "'v rtype \<Rightarrow> 'v \<Rightarrow> 'v" where
  "validated t v =
     (case Validate t of
        NoValidate \<Rightarrow> v
      | ValueReceiver g \<Rightarrow> v
      | PointerReceiver f \<Rightarrow> snd (f v))"

text \<open>
  The \<open>Validate\<close> calls the create flow of \<open>Server\<close> and the operation flow make on a
  value that passes: none without the capability, pointer handle then value handle for a
  value receiver, the pointer handle alone for a pointer receiver.
\<close>

definition validation_calls :: "'v rtype \<Rightarrow> 'v \<Rightarrow> 'v call list" where
  "validation_calls t v =
     (case Validate t of
        NoValidate \<Rightarrow> []
      | ValueReceiver g \<Rightarrow> [CValidate PtrHandle v, CValidate ValHandle v]
      | PointerReceiver f \<Rightarrow> [CValidate PtrHandle v])"

fun is_CAdd :: "'v call \<Rightarrow> bool" where
  "is_CAdd (CAdd _) = True"
| "is_CAdd _ = False"

fun is_CProcess :: "'v call \<Rightarrow> bool" where
  "is_CProcess (CProcess _) = True"
| "is_CProcess _ = False"

fun is_storage_call :: "'v call \<Rightarrow> bool" where
  "is_storage_call (CAdd _) = True"
| "is_storage_call (CGet _) = True"
| "is_storage_call _ = False"

text \<open>
  The shape \<open>YYYY-MM-DD HH:MM:SS\<plusminus>ZZZZ\<close>, written as a template: \<open>9\<close> stands for a
  decimal digit, \<open>+\<close> for a sign, any other character for itself.
\<close>

definition is_digit :: "char \<Rightarrow> bool" where
  "is_digit c = (c \<in> set ''0123456789'')"

definition matches :: "char \<Rightarrow> char \<Rightarrow> bool" where
  "matches p c =
     (if p = CHR ''9'' then is_digit c
      else if p = CHR ''+'' then c = CHR ''+'' \<or> c = CHR ''-''
      else c = p)"

definition timestamp_shape :: "string \<Rightarrow> bool" where
  "timestamp_shape s = list_all2 matches ''9999-99-99 99:99:99+9999'' s"

text \<open>
  The date and clock of a \<open>time.Time\<close> are in these ranges; the layout prints a year of
  four digits for the years 0 to 9999 and an offset of four digits below a hundred hours.
\<close>

definition civil :: "gotime \<Rightarrow> bool" where
  "civil t =
     (0 \<le> year t \<and> year t \<le> 9999 \<and> 1 \<le> month t \<and> month t \<le> 12 \<and> 1 \<le> day t \<and> day t \<le> 31 \<and>
      hour t < 24 \<and> minute t < 60 \<and> second t < 60 \<and> \<bar>offset t\<bar> < 360000)"

section \<open>A small instance: items are their own JSON text, the store is a list\<close>

definition env0 :: "string env" where
  "env0 =
     \<lparr>ValidateUserType = (\<lambda>t. if TName t = [] then Some (ExtError ''unnamed type'') else None),
      ErrorText = (\<lambda>e. case e of
          ExtError m \<Rightarrow> m
        | Errorf m \<Rightarrow> m
        | Wrapf (ExtError m') m \<Rightarrow> m @ '': '' @ m'
        | Wrapf _ m \<Rightarrow> m
        | RuntimeError m \<Rightarrow> m),
      FormatV = (\<lambda>e. case e of
          ExtError m \<Rightarrow> m
        | Errorf m \<Rightarrow> m
        | Wrapf _ m \<Rightarrow> m
        | RuntimeError m \<Rightarrow> m),
      ShowV = (\<lambda>v. case v of INil \<Rightarrow> ''<nil>'' | IErr _ \<Rightarrow> ''error'' | IVal x \<Rightarrow> x),
      Marshal = (\<lambda>v. case v of
          INil \<Rightarrow> Inr ''null''
        | IErr _ \<Rightarrow> Inr ''{}''
        | IVal x \<Rightarrow>
            if x = ''NaN'' then Inl (ExtError ''json: unsupported value: NaN'') else Inr x),
      MarshalInfo = (\<lambda>i.
          if 0 \<le> year (Timestamp i) \<and> year (Timestamp i) \<le> 9999
          then Inr (''{id:'' @ ID i @ '',rev:'' @ itoa (Rev i) @ ''}'')
          else Inl (ExtError ''Time.MarshalJSON: year outside of range [0,9999]''))\<rparr>"

definition decode0 :: "string \<Rightarrow> gerror + string" where
  "decode0 b = (if b = [] then Inl (ExtError ''EOF'') else Inr b)"

definition rejects :: "string \<Rightarrow> gerror option" where
  "rejects v = (if v = ''bad'' then Some (ExtError ''bad item'') else None)"

definition plainT :: "string rtype" where
  "plainT = \<lparr>TName = ''Item'', jsonDecode = decode0, Validate = NoValidate\<rparr>"

definition valT :: "string rtype" where
  "valT = \<lparr>TName = ''Item'', jsonDecode = decode0, Validate = ValueReceiver rejects\<rparr>"

definition ptrT :: "string rtype" where
  "ptrT = \<lparr>TName = ''Item'', jsonDecode = decode0,
            Validate = PointerReceiver (\<lambda>v. (rejects v, v))\<rparr>"

definition time0 :: gotime where
  "time0 = \<lparr>year = 2024, month = 1, day = 2, hour = 15, minute = 4, second = 5, offset = - 12600\<rparr>"

definition info0 :: "string list \<Rightarrow> item_info" where
  "info0 xs =
     \<lparr>ID = replicate (Suc (length xs)) (CHR ''i''), UserID = ''u1'', Timestamp = time0, Rev = 1\<rparr>"

definition lookup0 :: "string \<Rightarrow> string list \<Rightarrow> gerror + string iface \<times> item_info" where
  "lookup0 i xs =
     (if i = replicate (length i) (CHR ''i'') \<and> 0 < length i \<and> length i \<le> length xs
      then Inr (IVal (xs ! (length i - 1)), info0 (take (length i - 1) xs))
      else Inl (ExtError ''not found''))"

definition listStore :: "string rtype \<Rightarrow> (string, string list) istore" where
  "listStore t =
     \<lparr>Name = ''items'', Type = t,
      Add = (\<lambda>v xs. (Inr (info0 xs), xs @ [v])),
      Get = (\<lambda>i xs. (lookup0 i xs, xs))\<rparr>"

definition fullStore :: "string rtype \<Rightarrow> (string, string list) istore" where
  "fullStore t = (listStore t)\<lparr>Add := (\<lambda>v xs. (Inl (ExtError ''disk full''), xs))\<rparr>"

definition world0 :: "(string, string list) world" where
  "world0 = \<lparr>st = [], calls = []\<rparr>"

definition world1 :: "(string, string list) world" where
  "world1 = \<lparr>st = [''first''], calls = []\<rparr>"

definition echoType :: "string func_type" where
  "echoType = \<lparr>NumIn = 2, In = (\<lambda>i. plainT), NumOut = 2\<rparr>"

text \<open>
  The list store names its items \<open>i\<close>, \<open>ii\<close>, \<open>iii\<close> in the order they were added.
  \<open>Process(request) (response, error)\<close>: fails on \<open>boom\<close>, echoes anything else.
\<close>

definition echoOper :: "string ioper" where
  "echoOper =
     \<lparr>GoType = ''main.Echo'',
      Process = Some \<lparr>MType = echoType,
        Invoke = (\<lambda>x i. if i = 0 then (if x = ''boom'' then INil else IVal x)
                         else if x = ''boom'' then IErr (ExtError ''exploded'') else INil)\<rparr>\<rparr>"

text \<open>\<open>Process(request) response\<close>: one input, one output.\<close>

definition oneOutMethod :: "string rmethod" where
  "oneOutMethod = \<lparr>MType = echoType\<lparr>NumOut := 1\<rparr>, Invoke = (\<lambda>x i. IVal x)\<rparr>"

definition oneOutOper :: "string ioper" where
  "oneOutOper = \<lparr>GoType = ''main.OneOut'', Process = Some oneOutMethod\<rparr>"

definition oneOutInfo :: "string operInfo" where
  "oneOutInfo = \<lparr>oper = oneOutOper, processMethod = oneOutMethod, requestType = plainT\<rparr>"

text \<open>\<open>Process(a, b) (response, error)\<close>: two inputs.\<close>

definition twoInOper :: "string ioper" where
  "twoInOper =
     \<lparr>GoType = ''main.TwoIn'',
      Process = Some \<lparr>MType = echoType\<lparr>NumIn := 3\<rparr>, Invoke = (\<lambda>x i. INil)\<rparr>\<rparr>"

definition echoMethod :: "string rmethod" where
  "echoMethod = the (Process echoOper)"

definition echoInfo :: "string operInfo" where
  "echoInfo = \<lparr>oper = echoOper, processMethod = echoMethod, requestType = plainT\<rparr>"

definition shoutOper :: "string ioper" where
  "shoutOper = echoOper\<lparr>GoType := ''main.Shout''\<rparr>"

definition server0 :: "(string, string list) Server" where
  "server0 = New"

definition server1 :: "(string, string list) Server" where
  "server1 = server0\<lparr>opers := Some [''/op'' \<mapsto> echoInfo]\<rparr>"

definition server2 :: "(string, string list) Server" where
  "server2 = server0\<lparr>opers := Some [''/one'' \<mapsto> oneOutInfo]\<rparr>"

definition get :: "string \<Rightarrow> request" where
  "get p = \<lparr>Method = MethodGet, Path = p, Body = []\<rparr>"

text \<open>
  A store whose clock is far ahead: the envelopes it returns carry the year 10000.
\<close>

definition lateStore :: "string rtype \<Rightarrow> (string, string list) istore" where
  "lateStore t =
     (listStore t)\<lparr>Add := (\<lambda>v xs.
        (Inr ((info0 xs)\<lparr>Timestamp := time0\<lparr>year := 10000\<rparr>\<rparr>), xs @ [v]))\<rparr>"

text \<open>\<open>Process(request) (response, string)\<close>: the second output is not an error.\<close>

definition strMethod :: "string rmethod" where
  "strMethod = \<lparr>MType = echoType, Invoke = (\<lambda>x i. if i = 0 then IVal x else IVal ''oops'')\<rparr>"

definition strOper :: "string ioper" where
  "strOper = \<lparr>GoType = ''main.Str'', Process = Some strMethod\<rparr>"

definition strInfo :: "string operInfo" where
  "strInfo = \<lparr>oper = strOper, processMethod = strMethod, requestType = plainT\<rparr>"

definition server3 :: "(string, string list) Server" where
  "server3 = server0\<lparr>opers := Some [''/str'' \<mapsto> strInfo]\<rparr>"

definition post :: "string \<Rightarrow> string \<Rightarrow> request" where
  "post p b = \<lparr>Method = MethodPost, Path = p, Body = b\<rparr>"

section \<open>Facts about the HTTP writer\<close>

lemma status_Header_Set [simp]: "status (Header_Set k v res) = status res"
  by (simp add: Header_Set_def)

lemma body_Header_Set [simp]: "body (Header_Set k v res) = body res"
  by (simp add: Header_Set_def)

lemma header_Header_Set [simp]:
  "header (Header_Set k v res) k' = (if k' = k then Some v else header res k')"
  by (simp add: Header_Set_def)

lemma status_Write [simp]:
  "status (Write b res) = (case status res of None \<Rightarrow> Some 200 | Some c \<Rightarrow> Some c)"
  by (simp add: Write_def WriteHeader_def Let_def split: option.splits)

lemma body_Write [simp]: "body (Write b res) = body res @ b"
  by (simp add: Write_def WriteHeader_def Let_def)

lemma header_Write [simp]: "header (Write b res) = header res"
  by (simp add: Write_def WriteHeader_def Let_def)

lemma NewResponse_fields [simp]:
  "status NewResponse = None" "body NewResponse = []" "header NewResponse k = None"
  by (simp_all add: NewResponse_def)

lemma status_http_Error [simp]:
  "status (http_Error res msg code) = (case status res of None \<Rightarrow> Some code | Some c \<Rightarrow> Some c)"
  by (simp add: http_Error_def WriteHeader_def Header_Set_def split: option.splits)

lemma body_http_Error [simp]: "body (http_Error res msg code) = body res @ msg @ [CHR 0x0A]"
  by (simp add: http_Error_def WriteHeader_def Header_Set_def)

lemma status_of_Inr [simp]: "status_of (Inr res) = status res"
  by (simp add: status_of_def)

lemma body_of_Inr [simp]: "body_of (Inr res) = body res"
  by (simp add: body_of_def)

lemma header_of_Inr [simp]: "header_of (Inr res) k = header res k"
  by (simp add: header_of_def)

lemma status_write_info [simp]: "status (write_info env info NewResponse) = Some 200"
  by (simp add: write_info_def Let_def)

lemma body_write_info [simp]:
  "body (write_info env info NewResponse) = dropErr (MarshalInfo env info)"
  by (simp add: write_info_def Let_def)

lemma header_write_info:
  "header (write_info env info NewResponse) ''Item-ID'' = Some (ID info)"
  "header (write_info env info NewResponse) ''Item-User-ID'' = Some (UserID info)"
  "header (write_info env info NewResponse) ''Item-Timestamp'' =
     Some (Format (Timestamp info) timestampFormat)"
  "header (write_info env info NewResponse) ''Item-Revision'' = Some (itoa (Rev info))"
  "header (write_info env info NewResponse) ''Content-Type'' = Some ''application/json''"
  by (simp_all add: write_info_def Let_def)

section \<open>The timestamp layout\<close>

lemma is_digit_digit_char: "is_digit (digit_char d)"
proof -
  have "d mod 10 < length ''0123456789''" by simp
  then have "''0123456789'' ! (d mod 10) \<in> set ''0123456789''" by (rule nth_mem)
  then show ?thesis by (simp only: is_digit_def digit_char_def)
qed

lemma utoa_digits: "list_all is_digit (utoa n)"
proof (induction n rule: utoa.induct)
  case (1 n)
  show ?case
  proof (cases "n < 10")
    case True
    then show ?thesis by (simp add: utoa.simps [of n] is_digit_digit_char)
  next
    case False
    with 1 show ?thesis by (simp add: utoa.simps [of n] is_digit_digit_char)
  qed
qed

lemma length_utoa: "n < 10 ^ Suc k \<Longrightarrow> length (utoa n) \<le> Suc k"
proof (induction k arbitrary: n)
  case 0
  then show ?case by (simp add: utoa.simps [of n])
next
  case (Suc k)
  show ?case
  proof (cases "n < 10")
    case True
    then show ?thesis by (simp add: utoa.simps [of n])
  next
    case False
    from Suc.prems have "n div 10 < 10 ^ Suc k" by (simp add: less_mult_imp_div_less)
    then have "length (utoa (n div 10)) \<le> Suc k" by (rule Suc.IH)
    with False show ?thesis by (simp add: utoa.simps [of n])
  qed
qed

text \<open>A number that fits the width is printed as exactly that many digits.\<close>

lemma appendInt_block:
  assumes "0 \<le> x" and "x < 10 ^ Suc k"
  shows "length (appendInt x (Suc k)) = Suc k \<and> list_all is_digit (appendInt x (Suc k))"
proof -
  from assms have "nat \<bar>x\<bar> < 10 ^ Suc k" by (simp add: nat_less_iff)
  then have "length (utoa (nat \<bar>x\<bar>)) \<le> Suc k" by (rule length_utoa)
  moreover have "is_digit (CHR ''0'')" by (simp add: is_digit_def)
  ultimately show ?thesis
    using assms(1) utoa_digits [of "nat \<bar>x\<bar>"]
    by (auto simp: appendInt_def list_all_iff)
qed

lemma digits_block:
  "length xs = n \<Longrightarrow> list_all is_digit xs \<Longrightarrow> list_all2 matches (replicate n (CHR ''9'')) xs"
  by (induction xs arbitrary: n) (auto simp: matches_def)

lemma two_digits:
  assumes "0 \<le> x" and "x < 100"
  shows "list_all2 matches ''99'' (appendInt x 2)"
proof -
  from assms
  have "length (appendInt x (Suc 1)) = Suc 1 \<and> list_all is_digit (appendInt x (Suc 1))"
    by (intro appendInt_block) simp_all
  then have "list_all2 matches (replicate 2 (CHR ''9'')) (appendInt x 2)"
    by (intro digits_block) (simp_all add: numeral_2_eq_2)
  then show ?thesis by (simp add: numeral_2_eq_2)
qed

lemma four_digits:
  assumes "0 \<le> x" and "x \<le> 9999"
  shows "list_all2 matches ''9999'' (appendInt x 4)"
proof -
  from assms
  have "length (appendInt x (Suc 3)) = Suc 3 \<and> list_all is_digit (appendInt x (Suc 3))"
    by (intro appendInt_block) simp_all
  then have "list_all2 matches (replicate 4 (CHR ''9'')) (appendInt x 4)"
    by (intro digits_block) simp_all
  then show ?thesis by (simp add: eval_nat_numeral)
qed

lemma chunks_timestampFormat:
  "chunks timestampFormat =
     [StdLongYear, Lit (CHR ''-''), StdZeroMonth, Lit (CHR ''-''), StdZeroDay, Lit (CHR '' ''),
      StdHour, Lit (CHR '':''), StdZeroMinute, Lit (CHR '':''), StdZeroSecond, StdNumTZ]"
  by (simp add: timestampFormat_def chunks.simps)

lemma Format_timestampFormat:
  "Format t timestampFormat =
     appendInt (year t) 4 @ ''-'' @ appendInt (int (month t)) 2 @ ''-'' @
     appendInt (int (day t)) 2 @ '' '' @ appendInt (int (hour t)) 2 @ '':'' @
     appendInt (int (minute t)) 2 @ '':'' @ appendInt (int (second t)) 2 @
     format_chunk t StdNumTZ"
  by (simp add: Format_def chunks_timestampFormat)

lemma zone_block:
  assumes "\<bar>off\<bar> < 360000"
  shows "\<bar>quot off 60\<bar> div 60 < 100" and "0 \<le> \<bar>quot off 60\<bar> div 60"
    and "\<bar>quot off 60\<bar> mod 60 < 100" and "0 \<le> \<bar>quot off 60\<bar> mod 60"
proof -
  have q: "\<bar>quot off 60\<bar> = \<bar>off\<bar> div 60"
    by (cases "off = 0") (simp_all add: quot_def abs_mult abs_sgn_eq)
  from assms have "\<bar>off\<bar> div 60 < 6000" by simp
  then show "\<bar>quot off 60\<bar> div 60 < 100" by (simp add: q)
  show "0 \<le> \<bar>quot off 60\<bar> div 60" by (simp add: q)
  have "\<bar>quot off 60\<bar> mod 60 < 60" by simp
  then show "\<bar>quot off 60\<bar> mod 60 < 100" by linarith
  show "0 \<le> \<bar>quot off 60\<bar> mod 60" by simp
qed

lemma zone_shape:
  assumes "\<bar>offset t\<bar> < 360000"
  shows "list_all2 matches ''+9999'' (format_chunk t StdNumTZ)"
proof -
  let ?z = "quot (offset t) 60"
  have h: "list_all2 matches ''99'' (appendInt (\<bar>?z\<bar> div 60) 2)"
    using zone_block(1,2) [OF assms] by (intro two_digits)
  have m: "list_all2 matches ''99'' (appendInt (\<bar>?z\<bar> mod 60) 2)"
    using zone_block(3,4) [OF assms] by (intro two_digits)
  have s: "list_all2 matches ''+'' (if ?z < 0 then ''-'' else ''+'')"
    by (simp add: matches_def)
  have "list_all2 matches (''+'' @ ''99'' @ ''99'')
      ((if ?z < 0 then ''-'' else ''+'') @ appendInt (\<bar>?z\<bar> div 60) 2 @ appendInt (\<bar>?z\<bar> mod 60) 2)"
    using s h m by (intro list_all2_appendI)
  then show ?thesis by (simp add: Let_def)
qed

lemma lit_shape: "c \<noteq> CHR ''9'' \<Longrightarrow> c \<noteq> CHR ''+'' \<Longrightarrow> list_all2 matches [c] [c]"
  by (simp add: matches_def)

lemma Format_shape:
  assumes "civil t"
  shows "timestamp_shape (Format t timestampFormat)"
proof -
  from assms have y: "list_all2 matches ''9999'' (appendInt (year t) 4)"
    by (intro four_digits) (simp_all add: civil_def)
  from assms have mo: "list_all2 matches ''99'' (appendInt (int (month t)) 2)"
    by (intro two_digits) (simp_all add: civil_def)
  from assms have d: "list_all2 matches ''99'' (appendInt (int (day t)) 2)"
    by (intro two_digits) (simp_all add: civil_def)
  from assms have h: "list_all2 matches ''99'' (appendInt (int (hour t)) 2)"
    by (intro two_digits) (simp_all add: civil_def)
  from assms have mi: "list_all2 matches ''99'' (appendInt (int (minute t)) 2)"
    by (intro two_digits) (simp_all add: civil_def)
  from assms have se: "list_all2 matches ''99'' (appendInt (int (second t)) 2)"
    by (intro two_digits) (simp_all add: civil_def)
  from assms have z: "list_all2 matches ''+9999'' (format_chunk t StdNumTZ)"
    by (intro zone_shape) (simp add: civil_def)
  have "list_all2 matches
      (''9999'' @ ''-'' @ ''99'' @ ''-'' @ ''99'' @ '' '' @ ''99'' @ '':'' @ ''99'' @ '':'' @
       ''99'' @ ''+9999'')
      (Format t timestampFormat)"
    unfolding Format_timestampFormat
    by (intro list_all2_appendI y mo d h mi se z lit_shape) simp_all
  then show ?thesis by (simp add: timestamp_shape_def)
qed

text \<open>
  The layout at work: a time in a zone three and a half hours west, an offset of less
  than a minute (printed as \<open>+0000\<close>), and the year 10000, whose five digits leave the
  shape.
\<close>

lemma Format_time0: "Format time0 timestampFormat = ''2024-01-02 15:04:05-0330''"
  by (simp add: Format_timestampFormat time0_def appendInt_def utoa.simps digit_char_def quot_def)

lemma Format_half_minute_west:
  "Format (time0\<lparr>offset := - 30\<rparr>) timestampFormat = ''2024-01-02 15:04:05+0000''"
  by (simp add: Format_timestampFormat time0_def appendInt_def utoa.simps digit_char_def quot_def)

lemma Format_year_10000:
  "\<not> timestamp_shape (Format (time0\<lparr>year := 10000\<rparr>) timestampFormat)"
  by (simp add: Format_timestampFormat time0_def appendInt_def utoa.simps digit_char_def quot_def
      timestamp_shape_def)

section \<open>Validation on the two handles\<close>

lemma validate_via_fails:
  "validation_error t v = Some err \<Longrightarrow>
     \<exists>v'. validate_via PtrHandle t v w =
       (Some err, v', w\<lparr>calls := calls w @ [CValidate PtrHandle v]\<rparr>)"
  by (auto simp: validation_error_def validate_via_def split: validate_cap.splits prod.splits)

lemma validate_via_passes:
  "validation_error t v = None \<Longrightarrow>
     \<exists>w1. validate_via PtrHandle t v w = (None, validated t v, w1) \<and>
       (\<exists>v2. validate_via ValHandle t (validated t v) w1 =
          (None, v2, w\<lparr>calls := calls w @ validation_calls t v\<rparr>))"
  by (auto simp: validation_error_def validate_via_def validated_def validation_calls_def
      split: validate_cap.splits prod.splits)

lemma no_Process_in_validation: "filter is_CProcess (validation_calls t v) = []"
  by (simp add: validation_calls_def split: validate_cap.splits)

section \<open>The create flow of Server\<close>

text \<open>
  A body that decodes and fails validation: 400 with the wrapped error, after the one
  \<open>Validate\<close> call through the pointer; the store is not called and its state is the
  one before.
\<close>

lemma storePost_invalid:
  assumes "Path req = ''/'' @ Name s" and "jsonDecode (Type s) (Body req) = Inr item"
    and "validation_error (Type s) item = Some err"
  shows "storePost env s res req w =
    (Inr (http_Error res (ErrorText env (Wrapf err (''invalid '' @ Name s))) StatusBadRequest),
     w\<lparr>calls := calls w @ [CValidate PtrHandle item]\<rparr>)"
proof -
  from validate_via_fails [OF assms(3)] obtain v' where
    "validate_via PtrHandle (Type s) item w =
       (Some err, v', w\<lparr>calls := calls w @ [CValidate PtrHandle item]\<rparr>)" by blast
  with assms(1,2) show ?thesis by (simp add: storePost_def)
qed

text \<open>
  A body that decodes and passes: the \<open>Validate\<close> calls in the order pointer, value, then
  \<open>Add\<close> on the validated value, and 500 or the envelope.
\<close>

lemma storePost_valid:
  assumes "Path req = ''/'' @ Name s" and "jsonDecode (Type s) (Body req) = Inr item"
    and "validation_error (Type s) item = None"
  shows "storePost env s res req w =
    (case call_Add s (validated (Type s) item)
        (w\<lparr>calls := calls w @ validation_calls (Type s) item\<rparr>) of
       (Inl err, w3) \<Rightarrow>
         (Inr (http_Error res (ErrorText env (Wrapf err ''failed to add''))
            StatusInternalServerError), w3)
     | (Inr info, w3) \<Rightarrow> (Inr (write_info env info res), w3))"
proof -
  from validate_via_passes [OF assms(3)] obtain w1 v2 where
    "validate_via PtrHandle (Type s) item w = (None, validated (Type s) item, w1)"
    "validate_via ValHandle (Type s) (validated (Type s) item) w1 =
       (None, v2, w\<lparr>calls := calls w @ validation_calls (Type s) item\<rparr>)" by blast
  with assms(1,2) show ?thesis by (simp add: storePost_def)
qed

lemma storePost_invalid_400_no_Add:
  assumes "Path req = ''/'' @ Name s" and "jsonDecode (Type s) (Body req) = Inr item"
    and "validation_error (Type s) item = Some err"
  shows "status_of (fst (storePost env s NewResponse req w)) = Some 400 \<and>
    st (snd (storePost env s NewResponse req w)) = st w \<and>
    filter is_CAdd (calls (snd (storePost env s NewResponse req w))) = filter is_CAdd (calls w)"
  by (simp add: storePost_invalid [OF assms])

text \<open>
  The dropped error of \<open>json.Marshal\<close> at work: the envelope of the late store cannot be
  encoded, and the answer is 200 with an empty body and a timestamp header of 25
  characters.
\<close>

lemma storePost_unencodable_envelope:
  "MarshalInfo env0 ((info0 [])\<lparr>Timestamp := time0\<lparr>year := 10000\<rparr>\<rparr>) =
     Inl (ExtError ''Time.MarshalJSON: year outside of range [0,9999]'') \<and>
   status_of (fst (storePost env0 (lateStore valT) NewResponse (post ''/items'' ''good'') world0))
     = Some 200 \<and>
   body_of (fst (storePost env0 (lateStore valT) NewResponse (post ''/items'' ''good'') world0))
     = [] \<and>
   header_of (fst (storePost env0 (lateStore valT) NewResponse (post ''/items'' ''good'') world0))
     ''Item-Timestamp'' = Some ''10000-01-02 15:04:05-0330''"
proof -
  have f: "Format (time0\<lparr>year := 10000\<rparr>) timestampFormat = ''10000-01-02 15:04:05-0330''"
    by (simp add: Format_timestampFormat time0_def appendInt_def utoa.simps digit_char_def
        quot_def)
  have m: "MarshalInfo env0 ((info0 [])\<lparr>Timestamp := time0\<lparr>year := 10000\<rparr>\<rparr>) =
      Inl (ExtError ''Time.MarshalJSON: year outside of range [0,9999]'')"
    by (simp add: env0_def info0_def time0_def)
  have p: "Path (post ''/items'' ''good'') = ''/'' @ Name (lateStore valT)"
    by (simp add: post_def lateStore_def listStore_def)
  have d: "jsonDecode (Type (lateStore valT)) (Body (post ''/items'' ''good'')) = Inr ''good''"
    by (simp add: post_def lateStore_def listStore_def valT_def decode0_def)
  have v: "validation_error (Type (lateStore valT)) ''good'' = None"
    by (simp add: lateStore_def listStore_def valT_def validation_error_def rejects_def)
  have n: "validated (Type (lateStore valT)) ''good'' = ''good''"
    by (simp add: lateStore_def listStore_def valT_def validated_def)
  have "fst (storePost env0 (lateStore valT) NewResponse (post ''/items'' ''good'') world0) =
      Inr (write_info env0 ((info0 [])\<lparr>Timestamp := time0\<lparr>year := 10000\<rparr>\<rparr>) NewResponse)"
    unfolding storePost_valid [OF p d v] n
    by (simp add: call_Add_def lateStore_def listStore_def world0_def)
  then show ?thesis
    using m by (simp add: header_write_info f dropErr_def)
qed

text \<open>
  Without a pointer-receiver \<open>Validate\<close> the create flow of \<open>Crud\<close> answers as the one of
  \<open>Server\<close> does and makes the same calls to the store.
\<close>

lemma Crud_post_agrees:
  assumes "\<forall>f. Validate (Type s) \<noteq> PointerReceiver f"
  shows "fst (Crud_post env s res req w) = fst (storePost env s res req w) \<and>
    st (snd (Crud_post env s res req w)) = st (snd (storePost env s res req w)) \<and>
    filter is_storage_call (calls (snd (Crud_post env s res req w))) =
      filter is_storage_call (calls (snd (storePost env s res req w)))"
  using assms
  by (cases "Validate (Type s)")
    (auto simp: Crud_post_def storePost_def validate_via_def call_Add_def
      split: sum.splits prod.splits option.splits)

section \<open>The operation flow\<close>

lemma operPost_valid:
  assumes "jsonDecode (requestType o') (Body req) = Inr x"
    and "validation_error (requestType o') x = None"
  shows "operPost env o' res req w =
    (operRespond env o' res (Call (processMethod o') (validated (requestType o') x)),
     w\<lparr>calls := calls w @ validation_calls (requestType o') x @
        [CProcess (validated (requestType o') x)]\<rparr>)"
proof -
  from validate_via_passes [OF assms(2)] obtain w1 v2 where
    "validate_via PtrHandle (requestType o') x w = (None, validated (requestType o') x, w1)"
    "validate_via ValHandle (requestType o') (validated (requestType o') x) w1 =
       (None, v2, w\<lparr>calls := calls w @ validation_calls (requestType o') x\<rparr>)" by blast
  with assms(1) show ?thesis by (simp add: operPost_def call_Process_def)
qed

lemma length_Call [simp]: "length (Call m x) = NumOut (MType m)"
  by (simp add: Call_def)

text \<open>The arity branch: 500 exactly for a Process that does not declare two outputs.\<close>

lemma operPost_wrong_arity:
  assumes "jsonDecode (requestType o') (Body req) = Inr x"
    and "validation_error (requestType o') x = None"
    and "NumOut (MType (processMethod o')) \<noteq> 2"
  shows "status_of (fst (operPost env o' NewResponse req w)) = Some 500"
  using assms(3) by (simp add: operPost_valid [OF assms(1,2)] operRespond_def)

lemma operPost_right_arity:
  assumes "jsonDecode (requestType o') (Body req) = Inr x"
    and "validation_error (requestType o') x = None"
    and "NumOut (MType (processMethod o')) = 2"
  shows "status_of (fst (operPost env o' NewResponse req w)) \<noteq> Some 500"
  using assms(3)
  by (simp add: operPost_valid [OF assms(1,2)] operRespond_def Let_def status_of_def
      split: iface.splits)

text \<open>
  What registration checks: the method, the number of inputs, the request type. The
  number of outputs is not among it.
\<close>

lemma WithOper_panics_iff:
  "isl (WithOper env server path op) \<longleftrightarrow>
     (case Process op of
        None \<Rightarrow> True
      | Some m \<Rightarrow>
          NumIn (MType m) \<noteq> 2 \<or> ValidateUserType env (In (MType m) 1) \<noteq> None \<or>
          opers server = None)"
  by (auto simp: WithOper_def Let_def split: option.splits)

lemma WithOper_rejects_two_inputs:
  "WithOper env0 server0 ''/two'' twoInOper =
     Inl (Errorf ''main.TwoIn.Process() does not have prototype Process(request)->(response,error)'')"
  by (simp add: WithOper_def twoInOper_def echoType_def)

text \<open>The binding that a successful registration stores under the path.\<close>

lemma WithOper_binding:
  assumes "WithOper env server path op = Inr server'"
  shows "\<exists>m bs. Process op = Some m \<and> opers server' = Some bs \<and>
    bs path = Some \<lparr>oper = op, processMethod = m, requestType = In (MType m) 1\<rparr>"
  using assms by (auto simp: WithOper_def Let_def split: option.splits if_splits)

lemma SplitN_examples:
  "SplitN ''/items/i'' ''/'' 4 = [[], ''items'', ''i'']"
  "SplitN ''/items/iii'' ''/'' 4 = [[], ''items'', ''iii'']"
  "SplitN ''/items/i/x'' ''/'' 4 = [[], ''items'', ''i'', ''x'']"
  "SplitN ''/items/'' ''/'' 4 = [[], ''items'', []]"
  by (simp_all add: eval_nat_numeral)

section \<open>The claims about the registry\<close>

text \<open>
  C1. The claim: registering an operation whose Process lacks the signature of one
  input and two outputs panics at registration. \<open>WithOper\<close> looks for the method,
  compares the number of inputs and validates the request type, as
  \<open>WithOper_panics_iff\<close> says, and never reads the number of outputs. At the
  operation \<open>oneOutOper\<close>, whose Process has one input besides the receiver and one
  output, registration does not panic: it returns the server with the binding stored.
\<close>

theorem WithOper_accepts_one_output:
  "NumIn (MType oneOutMethod) = 2 \<and> NumOut (MType oneOutMethod) = 1 \<and>
   Process oneOutOper = Some oneOutMethod \<and>
   WithOper env0 server0 ''/one'' oneOutOper = Inr server2"
  by (simp add: WithOper_def Let_def env0_def server0_def server2_def New_def oneOutOper_def
      oneOutInfo_def oneOutMethod_def echoType_def plainT_def)

text \<open>
  C10. Registering an operation under a path that already holds a binding replaces the
  binding and raises nothing of its own: after a successful \<open>WithOper path op1\<close>, the
  result of \<open>WithOper path op2\<close> (the bindings, or the panic that \<open>op2\<close> alone causes)
  is the result of \<open>WithOper path op2\<close> on the server before. Two stores registered with
  \<open>With\<close> are both appended, in order, and \<open>With\<close> leaves the bindings alone.
\<close>

theorem WithOper_replaces_With_appends:
  "WithOper env server path op1 = Inr s1 \<Longrightarrow>
     WithOper env s1 path op2 = WithOper env server path op2 \<and>
     stores (With (With server a) b) = stores server @ [a, b] \<and>
     opers (With (With server a) b) = opers server"
  by (auto simp: WithOper_def With_def Let_def split: option.splits if_splits)

theorem WithOper_replaces_With_appends_witness:
  "WithOper env0 server0 ''/op'' echoOper = Inr server1 \<and>
   WithOper env0 server1 ''/op'' shoutOper = WithOper env0 server0 ''/op'' shoutOper \<and>
   stores (With (With server0 (listStore plainT)) (fullStore valT)) =
     stores server0 @ [listStore plainT, fullStore valT] \<and>
   opers (With (With server0 (listStore plainT)) (fullStore valT)) = opers server0"
proof -
  have reg: "WithOper env0 server0 ''/op'' echoOper = Inr server1"
    by (simp add: WithOper_def Let_def env0_def server0_def server1_def New_def echoOper_def
        echoInfo_def echoMethod_def echoType_def plainT_def)
  from WithOper_replaces_With_appends [OF reg] reg show ?thesis
    by simp
qed

section \<open>The claims about the store handlers\<close>

text \<open>
  C2. The claim: in the create flow the validation capability is invoked through every
  form of the decoded item that exposes it, the pointer first, then the value, and a
  failing invocation ends the request with 400. \<open>Server.storePost\<close> does so
  (\<open>storePost_invalid\<close>, \<open>storePost_valid\<close>). \<open>Crud.post\<close> asserts the capability on
  the value only: for the item type \<open>ptrT\<close>, whose \<open>Validate\<close> has a pointer receiver and
  rejects the item \<open>bad\<close>, the pointer exposes the capability and \<open>Crud.post\<close> makes no
  \<open>Validate\<close> call at all, where \<open>Server.storePost\<close> makes the call through the pointer.
\<close>

theorem Crud_post_skips_pointer_handle:
  "IWithValidate PtrHandle (Type (listStore ptrT)) \<noteq> None \<and>
   validation_error (Type (listStore ptrT)) ''bad'' = Some (ExtError ''bad item'') \<and>
   calls (snd (Crud_post env0 (listStore ptrT) NewResponse (post ''/items'' ''bad'') world0)) =
     [CAdd ''bad''] \<and>
   calls (snd (storePost env0 (listStore ptrT) NewResponse (post ''/items'' ''bad'') world0)) =
     [CValidate PtrHandle ''bad'']"
  by (simp add: Crud_post_def storePost_def listStore_def ptrT_def validation_error_def rejects_def
      post_def decode0_def validate_via_def call_Add_def world0_def)

text \<open>
  C3. The claim: a POST to the exact store path whose body decodes and fails the item's
  validation capability is answered 400 and \<open>Add\<close> is never invoked.
  \<open>Server.storePost\<close> does so (\<open>storePost_invalid_400_no_Add\<close>). \<open>Crud.post\<close>
  answers the same request on the store of \<open>ptrT\<close> items with 200, calls \<open>Add\<close>, and
  the rejected item is in the store.
\<close>

theorem Crud_post_adds_invalid_item:
  "Path (post ''/items'' ''bad'') = ''/'' @ Name (listStore ptrT) \<and>
   jsonDecode (Type (listStore ptrT)) (Body (post ''/items'' ''bad'')) = Inr ''bad'' \<and>
   validation_error (Type (listStore ptrT)) ''bad'' = Some (ExtError ''bad item'') \<and>
   status_of (fst (Crud_post env0 (listStore ptrT) NewResponse (post ''/items'' ''bad'') world0))
     = Some 200 \<and>
   filter is_CAdd
     (calls (snd (Crud_post env0 (listStore ptrT) NewResponse (post ''/items'' ''bad'') world0)))
     = [CAdd ''bad''] \<and>
   st (snd (Crud_post env0 (listStore ptrT) NewResponse (post ''/items'' ''bad'') world0))
     = [''bad'']"
  by (simp add: Crud_post_def listStore_def ptrT_def validation_error_def
      rejects_def post_def decode0_def validate_via_def call_Add_def world0_def write_info_def)

text \<open>
  C4. The read flow answers 404 exactly when the path does not split into three
  segments, or its third segment is empty, or \<open>Get\<close> on the third segment returns an
  error. In each of the three cases the answer is the same response, status 404 with the
  body \<open>Expecting GET /<name>/<id>\<close> and a newline, so the caller cannot tell them
  apart; in every other case the status is 200.
\<close>

theorem storeGet_404_iff:
  "(status_of (fst (storeGet env s NewResponse req w)) = Some 404) =
     (length (SplitN (Path req) ''/'' 4) \<noteq> 3 \<or> SplitN (Path req) ''/'' 4 ! 2 = [] \<or>
      (\<exists>err. fst (Get s (SplitN (Path req) ''/'' 4 ! 2) (st w)) = Inl err)) \<and>
   (status_of (fst (storeGet env s NewResponse req w)) = Some 404 \<longrightarrow>
      body_of (fst (storeGet env s NewResponse req w)) =
        ''Expecting GET /'' @ Name s @ ''/<id>'' @ [CHR 0x0A] \<and>
      fst (storeGet env s NewResponse req w) =
        Inr (http_Error NewResponse (''Expecting GET /'' @ Name s @ ''/<id>'') StatusNotFound)) \<and>
   (status_of (fst (storeGet env s NewResponse req w)) \<noteq> Some 404 \<longrightarrow>
      status_of (fst (storeGet env s NewResponse req w)) = Some 200)"
  by (auto simp: storeGet_def Let_def call_Get_def expectingGet_def
      split: prod.splits sum.splits)

theorem storeGet_404_iff_witness:
  "status_of (fst (storeGet env0 (listStore plainT) NewResponse (get ''/items/i/x'') world1))
     = Some 404 \<and>
   body_of (fst (storeGet env0 (listStore plainT) NewResponse (get ''/items/i/x'') world1))
     = ''Expecting GET /items/<id>'' @ [CHR 0x0A] \<and>
   status_of (fst (storeGet env0 (listStore plainT) NewResponse (get ''/items/'') world1))
     = Some 404 \<and>
   body_of (fst (storeGet env0 (listStore plainT) NewResponse (get ''/items/'') world1))
     = ''Expecting GET /items/<id>'' @ [CHR 0x0A] \<and>
   status_of (fst (storeGet env0 (listStore plainT) NewResponse (get ''/items/iii'') world1))
     = Some 404 \<and>
   body_of (fst (storeGet env0 (listStore plainT) NewResponse (get ''/items/iii'') world1))
     = ''Expecting GET /items/<id>'' @ [CHR 0x0A] \<and>
   status_of (fst (storeGet env0 (listStore plainT) NewResponse (get ''/items/i'') world1))
     = Some 200"
proof -
  have name: "Name (listStore plainT) = ''items''"
    by (simp add: listStore_def)
  have long: "length (SplitN (Path (get ''/items/i/x'')) ''/'' 4) \<noteq> 3"
    by (simp add: get_def SplitN_examples)
  have empty: "SplitN (Path (get ''/items/'')) ''/'' 4 ! 2 = []"
    by (simp add: get_def SplitN_examples)
  have missing:
    "fst (Get (listStore plainT) (SplitN (Path (get ''/items/iii'')) ''/'' 4 ! 2) (st world1))
      = Inl (ExtError ''not found'')"
    by (simp add: get_def SplitN_examples listStore_def lookup0_def world1_def)
  have found: "\<not> (length (SplitN (Path (get ''/items/i'')) ''/'' 4) \<noteq> 3 \<or>
      SplitN (Path (get ''/items/i'')) ''/'' 4 ! 2 = [] \<or>
      (\<exists>err. fst (Get (listStore plainT) (SplitN (Path (get ''/items/i'')) ''/'' 4 ! 2)
         (st world1)) = Inl err))"
    by (simp add: get_def SplitN_examples listStore_def lookup0_def world1_def)
  have a: "status_of (fst (storeGet env0 (listStore plainT) NewResponse (get ''/items/i/x'')
      world1)) = Some 404"
    using long storeGet_404_iff [of env0 "listStore plainT" "get ''/items/i/x''" world1]
    by blast
  have b: "status_of (fst (storeGet env0 (listStore plainT) NewResponse (get ''/items/'')
      world1)) = Some 404"
    using empty storeGet_404_iff [of env0 "listStore plainT" "get ''/items/''" world1]
    by blast
  have c: "status_of (fst (storeGet env0 (listStore plainT) NewResponse (get ''/items/iii'')
      world1)) = Some 404"
    using missing storeGet_404_iff [of env0 "listStore plainT" "get ''/items/iii''" world1]
    by blast
  have d: "status_of (fst (storeGet env0 (listStore plainT) NewResponse (get ''/items/i'')
      world1)) = Some 200"
    using found storeGet_404_iff [of env0 "listStore plainT" "get ''/items/i''" world1]
    by blast
  show ?thesis
    using a b c d
      storeGet_404_iff [of env0 "listStore plainT" "get ''/items/i/x''" world1]
      storeGet_404_iff [of env0 "listStore plainT" "get ''/items/''" world1]
      storeGet_404_iff [of env0 "listStore plainT" "get ''/items/iii''" world1]
    by (simp add: name)
qed

text \<open>
  C5, as stated, fails where the store refuses the item: the item decodes and passes
  validation, \<open>Add\<close> returns an error, and the answer is 500.
\<close>

theorem storePost_add_fails_500:
  "Path (post ''/items'' ''good'') = ''/'' @ Name (fullStore valT) \<and>
   jsonDecode (Type (fullStore valT)) (Body (post ''/items'' ''good'')) = Inr ''good'' \<and>
   validation_error (Type (fullStore valT)) ''good'' = None \<and>
   status_of (fst (storeHandler (storePost env0) (storeGet env0) (fullStore valT) NewResponse
      (post ''/items'' ''good'') world0)) = Some 500"
  by (simp add: storeHandler_def storePost_def fullStore_def listStore_def valT_def
      validation_error_def rejects_def post_def decode0_def validate_via_def call_Add_def world0_def)

text \<open>
  C5, amended. For every store and every POST to its exact path whose body decodes and
  passes validation, if \<open>Add\<close> on the validated item returns an envelope, the answer is
  200 with the identifier, the owning user's identifier, the timestamp and the revision
  in the headers \<open>Item-ID\<close>, \<open>Item-User-ID\<close>, \<open>Item-Timestamp\<close> and \<open>Item-Revision\<close>.
  The body is the envelope's JSON when \<open>json.Marshal\<close> encodes the envelope, and empty
  when it does not: the handler drops the error. The timestamp header is the time
  formatted with the package's layout, which for a year from 0 to 9999 and an offset
  below a hundred hours has the shape \<open>YYYY-MM-DD HH:MM:SS\<plusminus>ZZZZ\<close> with a numeric
  offset.
\<close>

theorem storePost_created:
  assumes "Method req = MethodPost" and "Path req = ''/'' @ Name s"
    and "jsonDecode (Type s) (Body req) = Inr item"
    and "validation_error (Type s) item = None"
    and "fst (Add s (validated (Type s) item) (st w)) = Inr info"
  shows
    "status_of (fst (storeHandler (storePost env) (storeGet env) s NewResponse req w)) = Some 200 \<and>
     (\<forall>jsonValue. MarshalInfo env info = Inr jsonValue \<longrightarrow>
        body_of (fst (storeHandler (storePost env) (storeGet env) s NewResponse req w)) =
          jsonValue) \<and>
     (\<forall>err. MarshalInfo env info = Inl err \<longrightarrow>
        body_of (fst (storeHandler (storePost env) (storeGet env) s NewResponse req w)) = []) \<and>
     header_of (fst (storeHandler (storePost env) (storeGet env) s NewResponse req w)) ''Item-ID'' =
       Some (ID info) \<and>
     header_of (fst (storeHandler (storePost env) (storeGet env) s NewResponse req w))
       ''Item-User-ID'' = Some (UserID info) \<and>
     header_of (fst (storeHandler (storePost env) (storeGet env) s NewResponse req w))
       ''Item-Timestamp'' = Some (Format (Timestamp info) timestampFormat) \<and>
     header_of (fst (storeHandler (storePost env) (storeGet env) s NewResponse req w))
       ''Item-Revision'' = Some (itoa (Rev info)) \<and>
     (civil (Timestamp info) \<longrightarrow> timestamp_shape (Format (Timestamp info) timestampFormat))"
proof -
  from assms(5) have "\<exists>w3. call_Add s (validated (Type s) item)
      (w\<lparr>calls := calls w @ validation_calls (Type s) item\<rparr>) = (Inr info, w3)"
    by (cases "Add s (validated (Type s) item) (st w)") (simp add: call_Add_def)
  then obtain w3 where "call_Add s (validated (Type s) item)
      (w\<lparr>calls := calls w @ validation_calls (Type s) item\<rparr>) = (Inr info, w3)" ..
  then have "storeHandler (storePost env) (storeGet env) s NewResponse req w =
      (Inr (write_info env info NewResponse), w3)"
    using assms(1) by (simp add: storeHandler_def storePost_valid [OF assms(2,3,4)])
  then show ?thesis
    by (simp add: header_write_info Format_shape dropErr_def)
qed

theorem storePost_created_witness:
  "status_of (fst (storeHandler (storePost env0) (storeGet env0) (listStore valT) NewResponse
      (post ''/items'' ''good'') world0)) = Some 200 \<and>
   body_of (fst (storeHandler (storePost env0) (storeGet env0) (listStore valT) NewResponse
      (post ''/items'' ''good'') world0)) = ''{id:i,rev:1}'' \<and>
   header_of (fst (storeHandler (storePost env0) (storeGet env0) (listStore valT) NewResponse
      (post ''/items'' ''good'') world0)) ''Item-ID'' = Some ''i'' \<and>
   header_of (fst (storeHandler (storePost env0) (storeGet env0) (listStore valT) NewResponse
      (post ''/items'' ''good'') world0)) ''Item-User-ID'' = Some ''u1'' \<and>
   header_of (fst (storeHandler (storePost env0) (storeGet env0) (listStore valT) NewResponse
      (post ''/items'' ''good'') world0)) ''Item-Timestamp'' = Some ''2024-01-02 15:04:05-0330'' \<and>
   header_of (fst (storeHandler (storePost env0) (storeGet env0) (listStore valT) NewResponse
      (post ''/items'' ''good'') world0)) ''Item-Revision'' = Some ''1'' \<and>
   civil time0 \<and> timestamp_shape ''2024-01-02 15:04:05-0330'' \<and>
   status_of (fst (storeHandler (storePost env0) (storeGet env0) (lateStore valT) NewResponse
      (post ''/items'' ''good'') world0)) = Some 200 \<and>
   body_of (fst (storeHandler (storePost env0) (storeGet env0) (lateStore valT) NewResponse
      (post ''/items'' ''good'') world0)) = []"
proof -
  have m: "Method (post ''/items'' ''good'') = MethodPost"
    by (simp add: post_def)
  have p: "Path (post ''/items'' ''good'') = ''/'' @ Name (listStore valT)"
    by (simp add: post_def listStore_def)
  have d: "jsonDecode (Type (listStore valT)) (Body (post ''/items'' ''good'')) = Inr ''good''"
    by (simp add: post_def listStore_def valT_def decode0_def)
  have v: "validation_error (Type (listStore valT)) ''good'' = None"
    by (simp add: listStore_def valT_def validation_error_def rejects_def)
  have a: "fst (Add (listStore valT) (validated (Type (listStore valT)) ''good'') (st world0)) =
      Inr (info0 [])"
    by (simp add: listStore_def world0_def)
  have p': "Path (post ''/items'' ''good'') = ''/'' @ Name (lateStore valT)"
    by (simp add: post_def lateStore_def listStore_def)
  have d': "jsonDecode (Type (lateStore valT)) (Body (post ''/items'' ''good'')) = Inr ''good''"
    by (simp add: post_def lateStore_def listStore_def valT_def decode0_def)
  have v': "validation_error (Type (lateStore valT)) ''good'' = None"
    by (simp add: lateStore_def listStore_def valT_def validation_error_def rejects_def)
  have a': "fst (Add (lateStore valT) (validated (Type (lateStore valT)) ''good'') (st world0)) =
      Inr ((info0 [])\<lparr>Timestamp := time0\<lparr>year := 10000\<rparr>\<rparr>)"
    by (simp add: lateStore_def listStore_def world0_def)
  have c: "civil time0"
    by (simp add: civil_def time0_def)
  have j: "MarshalInfo env0 (info0 []) = Inr ''{id:i,rev:1}''"
    by (simp add: env0_def info0_def time0_def itoa_def utoa.simps digit_char_def)
  have j': "MarshalInfo env0 ((info0 [])\<lparr>Timestamp := time0\<lparr>year := 10000\<rparr>\<rparr>) =
      Inl (ExtError ''Time.MarshalJSON: year outside of range [0,9999]'')"
    by (simp add: env0_def info0_def time0_def)
  have r: "itoa 1 = ''1''"
    by (simp add: itoa_def utoa.simps digit_char_def)
  from storePost_created [OF m p d v a, of env0] storePost_created [OF m p' d' v' a', of env0]
    c j j'
  show ?thesis
    by (simp add: info0_def Format_time0 r)
qed

text \<open>
  C8. The handler bound to a store's exact path and to its sub-paths answers every
  request whose method is neither POST nor GET (PUT and DELETE among them), whatever
  the path, with 405 and the fixed message naming the four verbs; it calls no
  collaborator and leaves the world as it was.
\<close>

theorem storeHandler_other_method_405:
  "Method req \<noteq> MethodPost \<Longrightarrow> Method req \<noteq> MethodGet \<Longrightarrow>
     storeHandler (storePost env) (storeGet env) s NewResponse req w =
       (Inr (http_Error NewResponse crudMessage StatusMethodNotAllowed), w) \<and>
     status (http_Error NewResponse crudMessage StatusMethodNotAllowed) = Some 405 \<and>
     body (http_Error NewResponse crudMessage StatusMethodNotAllowed) =
       ''CRUD: Create with POST, Read with GET, Update with PUT, Delete with DELETE.'' @ [CHR 0x0A]"
  by (simp add: storeHandler_def crudMessage_def)

theorem storeHandler_other_method_405_witness:
  "storeHandler (storePost env0) (storeGet env0) (listStore valT) NewResponse
     \<lparr>Method = ''PUT'', Path = ''/items/i'', Body = ''x''\<rparr> world1 =
     (Inr (http_Error NewResponse crudMessage StatusMethodNotAllowed), world1) \<and>
   storeHandler (storePost env0) (storeGet env0) (listStore valT) NewResponse
     \<lparr>Method = ''DELETE'', Path = ''/items'', Body = []\<rparr> world1 =
     (Inr (http_Error NewResponse crudMessage StatusMethodNotAllowed), world1)"
  using storeHandler_other_method_405 [of "\<lparr>Method = ''PUT'', Path = ''/items/i'', Body = ''x''\<rparr>"
      env0 "listStore valT" world1]
    storeHandler_other_method_405 [of "\<lparr>Method = ''DELETE'', Path = ''/items'', Body = []\<rparr>"
      env0 "listStore valT" world1]
  by simp

text \<open>
  C9. The claim: \<open>Crud.post\<close> and \<open>Server.storePost\<close> give the same response and make
  the same calls to the store on every request. They do on every store whose item type has
  no pointer-receiver \<open>Validate\<close> (\<open>Crud_post_agrees\<close>). On the store of \<open>ptrT\<close> items
  and the body \<open>bad\<close>, \<open>Server.storePost\<close> answers 400 without a call to the store and
  \<open>Crud.post\<close> answers 200 after \<open>Add\<close>.
\<close>

theorem Crud_post_differs_from_storePost:
  "status_of (fst (Crud_post env0 (listStore ptrT) NewResponse (post ''/items'' ''bad'') world0))
     = Some 200 \<and>
   status_of (fst (storePost env0 (listStore ptrT) NewResponse (post ''/items'' ''bad'') world0))
     = Some 400 \<and>
   filter is_storage_call
     (calls (snd (Crud_post env0 (listStore ptrT) NewResponse (post ''/items'' ''bad'') world0)))
     = [CAdd ''bad''] \<and>
   filter is_storage_call
     (calls (snd (storePost env0 (listStore ptrT) NewResponse (post ''/items'' ''bad'') world0)))
     = []"
  by (simp add: Crud_post_def storePost_def listStore_def ptrT_def validation_error_def rejects_def
      post_def decode0_def validate_via_def call_Add_def world0_def write_info_def)

section \<open>The claims about the operation handlers\<close>

text \<open>
  C6, as stated, fails in two ways. Registration accepts a Process whose second output
  is not an error: \<open>strOper\<close> registers, its failure output is the non-nil string
  \<open>oops\<close>, and the POST ends in a panic, not in 400. And the handler drops the error of
  \<open>json.Marshal\<close>: \<open>echoOper\<close> returns the response \<open>NaN\<close> with a nil failure, the
  response cannot be encoded, and the answer is 200 with an empty body.
\<close>

theorem operPost_panics_or_empty_body:
  "WithOper env0 server0 ''/str'' strOper = Inr server3 \<and>
   jsonDecode (requestType strInfo) (Body (post ''/str'' ''x'')) = Inr ''x'' \<and>
   validation_error (requestType strInfo) ''x'' = None \<and>
   Call (processMethod strInfo) ''x'' = [IVal ''x'', IVal ''oops''] \<and>
   fst (operHandler (operPost env0) strInfo NewResponse (post ''/str'' ''x'') world0) =
     Inl (Errorf ''reflect.Value:oops is not error'') \<and>
   WithOper env0 server0 ''/op'' echoOper = Inr server1 \<and>
   jsonDecode (requestType echoInfo) (Body (post ''/op'' ''NaN'')) = Inr ''NaN'' \<and>
   validation_error (requestType echoInfo) ''NaN'' = None \<and>
   Call (processMethod echoInfo) ''NaN'' = [IVal ''NaN'', INil] \<and>
   Marshal env0 (IVal ''NaN'') = Inl (ExtError ''json: unsupported value: NaN'') \<and>
   status_of (fst (operHandler (operPost env0) echoInfo NewResponse (post ''/op'' ''NaN'') world0))
     = Some 200 \<and>
   body_of (fst (operHandler (operPost env0) echoInfo NewResponse (post ''/op'' ''NaN'') world0))
     = []"
  by (simp add: WithOper_def Let_def env0_def server0_def server1_def server3_def New_def
      strOper_def strInfo_def strMethod_def echoOper_def echoInfo_def echoMethod_def echoType_def
      plainT_def operHandler_def operPost_def post_def decode0_def validate_via_def
      validation_error_def call_Process_def Call_def operRespond_def dropErr_def world0_def
      upt_rec)

text \<open>
  C6, amended. For every operation binding, a POST whose body decodes into the request
  type and passes validation calls Process exactly once, on the validated request. If
  the call returns exactly two values, a response and a nil failure, the answer is 200;
  its body is the response's JSON when \<open>json.Marshal\<close> encodes the response, and empty
  when it does not. If the call returns exactly two values, a response and an error, the
  answer is 400 with the text of the error wrapped as \<open>failed: ...\<close>.
\<close>

theorem operPost_invokes_Process_once:
  assumes "Method req = MethodPost"
    and "jsonDecode (requestType o') (Body req) = Inr x"
    and "validation_error (requestType o') x = None"
  shows
    "filter is_CProcess (calls (snd (operHandler (operPost env) o' NewResponse req w))) =
       filter is_CProcess (calls w) @ [CProcess (validated (requestType o') x)] \<and>
     (\<forall>resp. Call (processMethod o') (validated (requestType o') x) = [resp, INil] \<longrightarrow>
        status_of (fst (operHandler (operPost env) o' NewResponse req w)) = Some 200 \<and>
        (\<forall>jsonValue. Marshal env resp = Inr jsonValue \<longrightarrow>
           body_of (fst (operHandler (operPost env) o' NewResponse req w)) = jsonValue) \<and>
        (\<forall>err. Marshal env resp = Inl err \<longrightarrow>
           body_of (fst (operHandler (operPost env) o' NewResponse req w)) = [])) \<and>
     (\<forall>resp err. Call (processMethod o') (validated (requestType o') x) = [resp, IErr err] \<longrightarrow>
        status_of (fst (operHandler (operPost env) o' NewResponse req w)) = Some 400 \<and>
        body_of (fst (operHandler (operPost env) o' NewResponse req w)) =
          ErrorText env (Errorf (''failed: '' @ FormatV env err)) @ [CHR 0x0A])"
  using assms(1)
  by (simp add: operHandler_def operPost_valid [OF assms(2,3)] no_Process_in_validation
      operRespond_def Let_def dropErr_def)

theorem operPost_invokes_Process_once_witness:
  "WithOper env0 server0 ''/op'' echoOper = Inr server1 \<and>
   opers server1 = Some [''/op'' \<mapsto> echoInfo] \<and>
   calls (snd (operHandler (operPost env0) echoInfo NewResponse (post ''/op'' ''hi'') world0)) =
     [CProcess ''hi''] \<and>
   status_of (fst (operHandler (operPost env0) echoInfo NewResponse (post ''/op'' ''hi'') world0))
     = Some 200 \<and>
   body_of (fst (operHandler (operPost env0) echoInfo NewResponse (post ''/op'' ''hi'') world0))
     = ''hi'' \<and>
   status_of (fst (operHandler (operPost env0) echoInfo NewResponse (post ''/op'' ''NaN'') world0))
     = Some 200 \<and>
   body_of (fst (operHandler (operPost env0) echoInfo NewResponse (post ''/op'' ''NaN'') world0))
     = [] \<and>
   status_of (fst (operHandler (operPost env0) echoInfo NewResponse (post ''/op'' ''boom'') world0))
     = Some 400 \<and>
   body_of (fst (operHandler (operPost env0) echoInfo NewResponse (post ''/op'' ''boom'') world0))
     = ''failed: exploded'' @ [CHR 0x0A]"
proof -
  have reg: "WithOper env0 server0 ''/op'' echoOper = Inr server1"
    by (simp add: WithOper_def Let_def env0_def server0_def server1_def New_def echoOper_def
        echoInfo_def echoMethod_def echoType_def plainT_def)
  have b: "opers server1 = Some [''/op'' \<mapsto> echoInfo]"
    by (simp add: server1_def)
  have m: "Method (post ''/op'' b) = MethodPost" for b
    by (simp add: post_def)
  have d: "b \<noteq> [] \<Longrightarrow> jsonDecode (requestType echoInfo) (Body (post ''/op'' b)) = Inr b" for b
    by (simp add: post_def echoInfo_def plainT_def decode0_def)
  have v: "validation_error (requestType echoInfo) b = None" for b
    by (simp add: echoInfo_def plainT_def validation_error_def)
  have n: "validated (requestType echoInfo) b = b" for b
    by (simp add: echoInfo_def plainT_def validated_def)
  have hi: "Call (processMethod echoInfo) ''hi'' = [IVal ''hi'', INil]"
    by (simp add: Call_def echoInfo_def echoMethod_def echoOper_def echoType_def upt_rec)
  have nan: "Call (processMethod echoInfo) ''NaN'' = [IVal ''NaN'', INil]"
    by (simp add: Call_def echoInfo_def echoMethod_def echoOper_def echoType_def upt_rec)
  have boom: "Call (processMethod echoInfo) ''boom'' = [INil, IErr (ExtError ''exploded'')]"
    by (simp add: Call_def echoInfo_def echoMethod_def echoOper_def echoType_def upt_rec)
  have mar: "Marshal env0 (IVal ''hi'') = Inr ''hi''"
    "Marshal env0 (IVal ''NaN'') = Inl (ExtError ''json: unsupported value: NaN'')"
    by (simp_all add: env0_def)
  have msg: "ErrorText env0 (Errorf e) = e" "FormatV env0 (ExtError e) = e" for e
    by (simp_all add: env0_def)
  have once: "calls (snd (operHandler (operPost env0) echoInfo NewResponse (post ''/op'' ''hi'')
      world0)) = [CProcess ''hi'']"
  proof -
    have "validation_calls (requestType echoInfo) ''hi'' = []"
      by (simp add: validation_calls_def echoInfo_def plainT_def)
    moreover have "calls world0 = []"
      by (simp add: world0_def)
    ultimately show ?thesis
      by (simp add: operHandler_def operPost_valid [OF d v] m n)
  qed
  from operPost_invokes_Process_once [OF m d v, of "''hi''" env0 world0]
    operPost_invokes_Process_once [OF m d v, of "''NaN''" env0 world0]
    operPost_invokes_Process_once [OF m d v, of "''boom''" env0 world0]
    reg b hi nan boom once
  show ?thesis
    by (simp add: n mar msg)
qed

text \<open>
  C7. The claim: a call of Process that returns a number of values other than two is
  answered 500, and after a successful registration that branch cannot be reached. The
  first half holds (\<open>operPost_wrong_arity\<close>), and the branch is taken for no Process
  that declares two outputs (\<open>operPost_right_arity\<close>). Registration does not check the
  outputs: \<open>oneOutOper\<close> registers, and a POST to its binding is answered 500.
\<close>

theorem registered_operation_reaches_500:
  "WithOper env0 server0 ''/one'' oneOutOper = Inr server2 \<and>
   opers server2 = Some [''/one'' \<mapsto> oneOutInfo] \<and>
   length (Call (processMethod oneOutInfo) ''x'') = 1 \<and>
   status_of (fst (operHandler (operPost env0) oneOutInfo NewResponse (post ''/one'' ''x'') world0))
     = Some 500"
  by (simp add: WithOper_def Let_def env0_def server0_def server2_def New_def oneOutOper_def
      oneOutInfo_def oneOutMethod_def echoType_def plainT_def operHandler_def operPost_def
      post_def decode0_def validate_via_def call_Process_def Call_def operRespond_def)

end
